theory Spec2Isabelle
  imports Complex_Main "HOL-Library.Word"
begin

section \<open>Data types of \<^verbatim>\<open>dcs/module.h\<close>\<close>

text \<open>
  The value of a C++ \<^verbatim>\<open>double\<close> is a real number. Comparison, negation and
  \<^verbatim>\<open>std::abs\<close> are exact; the result of an addition, a subtraction or a multiplication,
  and the value of a decimal literal, is rounded to the nearest binary64 value, ties to
  the value with an even significand. NaN is outside the model, and a rounded result
  above the largest finite value stands for the infinity that the machine yields there.
\<close>

type_synonym double = real

text \<open>\<^verbatim>\<open>std::numeric_limits<double>::max()\<close>: the largest finite binary64 value.\<close>

definition DBL_MAX :: double where
  "DBL_MAX = (2 ^ 53 - 1) * 2 ^ 971"

text \<open>Rounding to the nearest integer, a tie going to the even one.\<close>

definition round_half_even :: "real \<Rightarrow> int" where
  "round_half_even r =
     (let n = \<lfloor>r\<rfloor>; f = r - of_int n in
      if f < 1 / 2 then n
      else if f > 1 / 2 then n + 1
      else if even n then n else n + 1)"

text \<open>
  Rounding a non-negative real to a multiple of the spacing of the binary64 values around
  it. The spacing \<open>q\<close> starts at \<open>1 / 2 ^ 1074\<close>, that of the subnormal values, and doubles
  until the value is below \<open>q * 2 ^ 53\<close>; after 2045 doublings it is \<open>2 ^ 971\<close>, that of
  the largest values.
\<close>

fun round_with_quantum :: "nat \<Rightarrow> real \<Rightarrow> real \<Rightarrow> real" where
  "round_with_quantum 0 q a = of_int (round_half_even (a / q)) * q"
| "round_with_quantum (Suc n) q a =
     (if a < q * 2 ^ 53 then of_int (round_half_even (a / q)) * q
      else round_with_quantum n (2 * q) a)"

definition round_to_double :: "real \<Rightarrow> double" where
  "round_to_double x =
     (if x < 0 then - round_with_quantum 2045 (1 / 2 ^ 1074) (- x)
      else round_with_quantum 2045 (1 / 2 ^ 1074) x)"

text \<open>The operators \<^verbatim>\<open>+\<close>, \<^verbatim>\<open>-\<close> and \<^verbatim>\<open>*\<close> on \<^verbatim>\<open>double\<close>.\<close>

definition double_add :: "double \<Rightarrow> double \<Rightarrow> double" where
  "double_add a b = round_to_double (a + b)"

definition double_sub :: "double \<Rightarrow> double \<Rightarrow> double" where
  "double_sub a b = round_to_double (a - b)"

definition double_mult :: "double \<Rightarrow> double \<Rightarrow> double" where
  "double_mult a b = round_to_double (a * b)"

datatype Unit = NONE | CELSIUS | FAHRENHEIT | METERS | MILLIMETERS | RADIANS | DEGREES
  | NEWTONS | PASCALS | VOLTS | AMPERES | WATTS

text \<open>\<^verbatim>\<open>ActuatorCommand(t, v, u = Unit::NONE)\<close>\<close>

record ActuatorCommand =
  target :: string
  cmd_value :: double
  cmd_unit :: Unit

definition ActuatorCommand :: "string \<Rightarrow> double \<Rightarrow> ActuatorCommand" where
  "ActuatorCommand t v = \<lparr>target = t, cmd_value = v, cmd_unit = NONE\<rparr>"

datatype ModuleState = UNINITIALIZED | INITIALIZING | READY | RUNNING | PAUSED | ERROR
  | SHUTDOWN

record Metrics =
  processedCount :: "64 word"
  avgProcessingTime :: double
  maxProcessingTime :: double
  errorCount :: "64 word"
  uptime :: double

definition Metrics_init :: Metrics where
  "Metrics_init = \<lparr>processedCount = 0, avgProcessingTime = 0, maxProcessingTime = 0,
     errorCount = 0, uptime = 0\<rparr>"

text \<open>
  The base class \<^verbatim>\<open>Module\<close>. Its two IPC handles are opaque shared pointers that no
  operation below reads; they are not part of the record.
\<close>

record Module =
  name :: string
  version :: string
  state :: ModuleState
  metrics :: Metrics

definition getState :: "'a Module_scheme \<Rightarrow> ModuleState" where
  "getState m = state m"

definition setState :: "'a Module_scheme \<Rightarrow> ModuleState \<Rightarrow> 'a Module_scheme" where
  "setState m s = m\<lparr>state := s\<rparr>"

text \<open>\<^verbatim>\<open>virtual bool isHealthy() const { return state_ == ModuleState::RUNNING; }\<close>\<close>

definition isHealthy :: "'a Module_scheme \<Rightarrow> bool" where
  "isHealthy m = (state m = RUNNING)"

section \<open>Configuration of the control system\<close>

text \<open>
  \<^verbatim>\<open>struct Config\<close> with its default member initialisers. \<^verbatim>\<open>size_t\<close> is a 64-bit word;
  the watchdog timeout is the tick count of a \<^verbatim>\<open>std::chrono::milliseconds\<close>.
\<close>

record Config =
  sharedMemorySize :: "64 word"
  messageQueueSize :: "64 word"
  enableRedundancy :: bool
  enableMetrics :: bool
  logLevel :: string
  watchdogTimeout :: int

definition Config_default :: Config where
  "Config_default = \<lparr>sharedMemorySize = 100 * 1024 * 1024, messageQueueSize = 10000,
     enableRedundancy = False, enableMetrics = True, logLevel = ''INFO'',
     watchdogTimeout = 5000\<rparr>"

section \<open>Exceptions and console output\<close>

text \<open>
  The exception classes that the sources throw or declare: \<^verbatim>\<open>std::runtime_error\<close> and
  the two classes of the control system header that derive from it.
\<close>

datatype error = runtime_error string | ModuleLoadException string
  | ControlSystemException string

text \<open>
  A line written to \<^verbatim>\<open>std::cout\<close>. The formatted text is not modelled, only which
  line it is and the values printed in it.
\<close>

datatype console_line =
    InitializingLine string
  | HeaterPowerLine string double
  | HighPowerWarning double

text \<open>
  How a call of a member function ends: it returns, leaving the object in a new state and
  having printed some lines, or it throws, and the object is in the state it had at the
  \<^verbatim>\<open>throw\<close>.
\<close>

datatype 's outcome = Returned 's "console_line list" | Threw error 's

fun object_after :: "'s outcome \<Rightarrow> 's" where
  "object_after (Returned s out) = s"
| "object_after (Threw e s) = s"

fun has_thrown :: "'s outcome \<Rightarrow> bool" where
  "has_thrown (Returned s out) = False"
| "has_thrown (Threw e s) = True"

section \<open>Module lifecycle\<close>

text \<open>
  Modelled from the spec: the bodies of \<^verbatim>\<open>Module::start\<close>, \<^verbatim>\<open>Module::stop\<close> and
  \<^verbatim>\<open>Module::shutdown\<close> are declared in \<^verbatim>\<open>module.h\<close> and defined in a file that is
  not among the sources. The spec (4.1) gives start as Ready or Paused to Running, stop as
  Running to Paused, and shutdown as any state to Shutdown. \<open>None\<close> stands for a call in
  a state for which the spec names no transition.
\<close>

definition Module_start :: "'a Module_scheme \<Rightarrow> 'a Module_scheme option" where
  "Module_start m =
     (if state m = READY \<or> state m = PAUSED then Some (setState m RUNNING) else None)"

definition Module_stop :: "'a Module_scheme \<Rightarrow> 'a Module_scheme option" where
  "Module_stop m = (if state m = RUNNING then Some (setState m PAUSED) else None)"

definition Module_shutdown :: "'a Module_scheme \<Rightarrow> 'a Module_scheme" where
  "Module_shutdown m = setState m SHUTDOWN"

section \<open>Sensor modules\<close>

record SensorModule = Module +
  updateRate :: double

text \<open>The mock sensor of the test file, with its constructor and its \<^verbatim>\<open>initialize\<close>.\<close>

record MockSensor = SensorModule +
  initialized :: bool
  readCount :: "32 word"

definition MockSensor_new :: MockSensor where
  "MockSensor_new = \<lparr>name = ''MockSensor'', version = ''1.0.0'', state = UNINITIALIZED,
     metrics = Metrics_init, updateRate = 10, initialized = False, readCount = 0\<rparr>"

definition MockSensor_initialize :: "MockSensor \<Rightarrow> MockSensor outcome" where
  "MockSensor_initialize s = Returned (setState (s\<lparr>initialized := True\<rparr>) READY) []"

section \<open>Actuator modules\<close>

text \<open>\<^verbatim>\<open>ActuatorModule::Limits\<close> and its default member initialisers.\<close>

record Limits =
  minValue :: double
  maxValue :: double
  maxRate :: double

definition Limits_default :: Limits where
  "Limits_default = \<lparr>minValue = - DBL_MAX, maxValue = DBL_MAX, maxRate = DBL_MAX\<rparr>"

record ActuatorModule = Module +
  emergencyStop :: bool
  limits :: Limits


definition setEmergencyStop :: "'a ActuatorModule_scheme \<Rightarrow> bool \<Rightarrow> 'a ActuatorModule_scheme" where
  "setEmergencyStop m stop = m\<lparr>emergencyStop := stop\<rparr>"

definition isEmergencyStopped :: "'a ActuatorModule_scheme \<Rightarrow> bool" where
  "isEmergencyStopped m = emergencyStop m"

definition setLimits :: "'a ActuatorModule_scheme \<Rightarrow> Limits \<Rightarrow> 'a ActuatorModule_scheme" where
  "setLimits m l = m\<lparr>limits := l\<rparr>"

definition getLimits :: "'a ActuatorModule_scheme \<Rightarrow> Limits" where
  "getLimits m = limits m"

text \<open>
  Modelled from the spec: the body of \<^verbatim>\<open>ActuatorModule::validateCommand\<close> is declared in
  \<^verbatim>\<open>module.h\<close> and defined in a file that is not among the sources. The spec (4.4) says
  that it fails if \<^verbatim>\<open>cmd.value\<close> is outside \<^verbatim>\<open>[minValue, maxValue]\<close> and that the rate
  is limited rather than rejected, so the rate plays no part in the result. The test
  file agrees: with limits 0 to 100 the mock actuator accepts 50 and rejects 150.
\<close>

definition validateCommand :: "'a ActuatorModule_scheme \<Rightarrow> ActuatorCommand \<Rightarrow> bool" where
  "validateCommand m cmd =
     (\<not> (cmd_value cmd < minValue (limits m) \<or> cmd_value cmd > maxValue (limits m)))"

subsection \<open>The heater actuator of the example\<close>

record HeaterActuator = ActuatorModule +
  powerLevel :: double

text \<open>
  The constructor: the base class state, \<^verbatim>\<open>powerLevel_{0.0}\<close>, then
  \<^verbatim>\<open>setLimits({0.0, 100.0, 10.0})\<close>.
\<close>

definition HeaterActuator_new :: HeaterActuator where
  "HeaterActuator_new =
     setLimits
       \<lparr>name = ''HeaterActuator'', version = ''1.0.0'', state = UNINITIALIZED,
        metrics = Metrics_init, emergencyStop = False, limits = Limits_default,
        powerLevel = 0\<rparr>
       \<lparr>minValue = 0, maxValue = 100, maxRate = 10\<rparr>"

text \<open>\<^verbatim>\<open>connectHardware()\<close> has an empty body.\<close>

definition HeaterActuator_initialize :: "HeaterActuator \<Rightarrow> HeaterActuator outcome" where
  "HeaterActuator_initialize h = Returned (setState h READY) [InitializingLine (name h)]"

text \<open>
  The rate limiting block of \<^verbatim>\<open>HeaterActuator::execute\<close>: from the limits, the current
  power level and the target, the new power level. \<^verbatim>\<open>powerLevel_ += x\<close> stores the
  rounded sum.
\<close>

definition rateLimit :: "Limits \<Rightarrow> double \<Rightarrow> double \<Rightarrow> double" where
  "rateLimit l level targetPower =
     (let maxChange = double_mult (maxRate l) (round_to_double 0.01) in
      if \<bar>double_sub targetPower level\<bar> > maxChange
      then double_add level (if targetPower > level then maxChange else - maxChange)
      else targetPower)"

text \<open>
  \<^verbatim>\<open>HeaterActuator::execute\<close>. The body of \<^verbatim>\<open>Module::updateMetrics\<close> is not among the
  sources; it is the parameter \<open>updateMetrics\<close>, a function of the processing time and the
  metrics snapshot.
\<close>

definition HeaterActuator_execute ::
  "(double \<Rightarrow> Metrics \<Rightarrow> Metrics) \<Rightarrow> HeaterActuator \<Rightarrow> ActuatorCommand
     \<Rightarrow> HeaterActuator outcome" where
  "HeaterActuator_execute updateMetrics h cmd =
     (if \<not> validateCommand h cmd then Threw (runtime_error ''Invalid heater command'') h
      else if isEmergencyStopped h then Returned (h\<lparr>powerLevel := 0\<rparr>) []
      else
        let h1 = h\<lparr>powerLevel := rateLimit (limits h) (powerLevel h) (cmd_value cmd)\<rparr> in
        Returned (h1\<lparr>metrics := updateMetrics (round_to_double 0.001) (metrics h1)\<rparr>)
          [HeaterPowerLine (name h1) (powerLevel h1)])"

text \<open>
  \<^verbatim>\<open>HeaterActuator::isSafeToExecute\<close>: the result and the lines printed. The warning is
  printed for a value above the literal \<^verbatim>\<open>90.0\<close>.
\<close>

definition HeaterActuator_isSafeToExecute ::
  "HeaterActuator \<Rightarrow> ActuatorCommand \<Rightarrow> bool \<times> console_line list" where
  "HeaterActuator_isSafeToExecute h cmd =
     (\<not> isEmergencyStopped h \<and> validateCommand h cmd,
      if cmd_value cmd > 90.0 then [HighPowerWarning (cmd_value cmd)] else [])"

text \<open>
  An instance of the metrics parameter for running \<^verbatim>\<open>execute\<close> on concrete inputs: it
  leaves the snapshot as it is. No property below depends on the choice.
\<close>

definition keepMetrics :: "double \<Rightarrow> Metrics \<Rightarrow> Metrics" where
  "keepMetrics t m = m"

text \<open>
  The power level after each command of a sequence, the commands executed one after the
  other on the same heater; a command that throws leaves the heater as it was.
\<close>

fun dispatched_values ::
  "(double \<Rightarrow> Metrics \<Rightarrow> Metrics) \<Rightarrow> HeaterActuator \<Rightarrow> ActuatorCommand list \<Rightarrow> double list" where
  "dispatched_values upd h [] = []"
| "dispatched_values upd h (c # cs) =
     (let h' = object_after (HeaterActuator_execute upd h c)
      in powerLevel h' # dispatched_values upd h' cs)"

subsection \<open>The mock actuator of the test file\<close>

record MockActuator = ActuatorModule +
  lastCommand :: double
  executeCount :: "32 word"

definition MockActuator_new :: MockActuator where
  "MockActuator_new =
     setLimits
       \<lparr>name = ''MockActuator'', version = ''1.0.0'', state = UNINITIALIZED,
        metrics = Metrics_init, emergencyStop = False, limits = Limits_default,
        lastCommand = 0, executeCount = 0\<rparr>
       \<lparr>minValue = 0, maxValue = 100, maxRate = 50\<rparr>"

definition MockActuator_initialize :: "MockActuator \<Rightarrow> MockActuator outcome" where
  "MockActuator_initialize a = Returned (setState a READY) []"

definition MockActuator_execute :: "MockActuator \<Rightarrow> ActuatorCommand \<Rightarrow> MockActuator outcome" where
  "MockActuator_execute a cmd =
     (if \<not> validateCommand a cmd then Threw (runtime_error ''Invalid command'') a
      else Returned (a\<lparr>lastCommand := cmd_value cmd, executeCount := executeCount a + 1\<rparr>) [])"

section \<open>Typed module lookup of the control system\<close>

text \<open>
  A \<^verbatim>\<open>std::shared_ptr\<close> to a module: null, or the address of an object together with the
  class the object was created as. The classes are a type parameter \<open>'c\<close>, and
  \<open>derives c t\<close> says that class \<open>c\<close> is \<open>t\<close> or has \<open>t\<close> among its base classes, which is
  when \<^verbatim>\<open>dynamic_cast\<close> to \<open>t\<close> succeeds on an object of class \<open>c\<close>.
\<close>

datatype 'c shared_ptr = nullptr | ptr nat 'c

definition dynamic_pointer_cast ::
  "('c \<Rightarrow> 'c \<Rightarrow> bool) \<Rightarrow> 'c \<Rightarrow> 'c shared_ptr \<Rightarrow> 'c shared_ptr" where
  "dynamic_pointer_cast derives t p =
     (case p of nullptr \<Rightarrow> nullptr
      | ptr a c \<Rightarrow> if derives c t then ptr a c else nullptr)"

record 'c ModuleInfo =
  module :: "'c shared_ptr"
  libraryHandle :: nat
  libraryPath :: string

text \<open>
  \<^verbatim>\<open>ControlSystem::getModule<T>(name)\<close> on the map \<^verbatim>\<open>modules_\<close>. The lock guard only
  serialises the lookup.
\<close>

definition getModule ::
  "('c \<Rightarrow> 'c \<Rightarrow> bool) \<Rightarrow> (string \<rightharpoonup> 'c ModuleInfo) \<Rightarrow> 'c \<Rightarrow> string \<Rightarrow> 'c shared_ptr" where
  "getModule derives modules t n =
     (case modules n of
        Some info \<Rightarrow> dynamic_pointer_cast derives t (module info)
      | None \<Rightarrow> nullptr)"

text \<open>The classes of the sources and their inheritance.\<close>

datatype dcs_class = Module_class | SensorModule_class | ActuatorModule_class
  | TemperatureSensor_class | HeaterActuator_class | MockSensor_class | MockActuator_class

fun base_class :: "dcs_class \<Rightarrow> dcs_class option" where
  "base_class Module_class = None"
| "base_class SensorModule_class = Some Module_class"
| "base_class ActuatorModule_class = Some Module_class"
| "base_class TemperatureSensor_class = Some SensorModule_class"
| "base_class MockSensor_class = Some SensorModule_class"
| "base_class HeaterActuator_class = Some ActuatorModule_class"
| "base_class MockActuator_class = Some ActuatorModule_class"

definition dcs_derives :: "dcs_class \<Rightarrow> dcs_class \<Rightarrow> bool" where
  "dcs_derives c t =
     (c = t \<or> base_class c = Some t
      \<or> (case base_class c of Some b \<Rightarrow> base_class b = Some t | None \<Rightarrow> False))"

section \<open>Concrete runs\<close>

text \<open>
  A heater that has executed one command of 0.05 since its construction, and the same
  heater after \<^verbatim>\<open>setEmergencyStop(true)\<close>.
\<close>

definition heater_warm :: HeaterActuator where
  "heater_warm =
     object_after (HeaterActuator_execute keepMetrics HeaterActuator_new
       (ActuatorCommand ''heater'' 0.05))"

definition heater_warm_stopped :: HeaterActuator where
  "heater_warm_stopped = setEmergencyStop heater_warm True"

text \<open>A heater reconfigured by \<^verbatim>\<open>setLimits({0.0, 50.0, 10.0})\<close>.\<close>

definition heater_half_limits :: HeaterActuator where
  "heater_half_limits =
     setLimits HeaterActuator_new \<lparr>minValue = 0, maxValue = 50, maxRate = 10\<rparr>"



text \<open>A registry holding a heater actuator and a temperature sensor.\<close>

definition example_modules :: "string \<rightharpoonup> dcs_class ModuleInfo" where
  "example_modules =
     [''heater'' \<mapsto> \<lparr>module = ptr 1 HeaterActuator_class, libraryHandle = 0,
        libraryPath = ''./libheater_actuator.so''\<rparr>,
      ''temp'' \<mapsto> \<lparr>module = ptr 2 TemperatureSensor_class, libraryHandle = 0,
        libraryPath = ''./libtemperature_sensor.so''\<rparr>]"

section \<open>Health check\<close>

text \<open>
  C5. For every module and every state, \<^verbatim>\<open>isHealthy()\<close> is true exactly when the state is
  Running; it is false in Uninitialized, Initializing, Ready, Paused, Error and Shutdown.
\<close>

theorem isHealthy_iff_running:
  "isHealthy m = (state m = RUNNING)
   \<and> isHealthy (m\<lparr>state := RUNNING\<rparr>)
   \<and> \<not> isHealthy (m\<lparr>state := UNINITIALIZED\<rparr>)
   \<and> \<not> isHealthy (m\<lparr>state := INITIALIZING\<rparr>)
   \<and> \<not> isHealthy (m\<lparr>state := READY\<rparr>)
   \<and> \<not> isHealthy (m\<lparr>state := PAUSED\<rparr>)
   \<and> \<not> isHealthy (m\<lparr>state := ERROR\<rparr>)
   \<and> \<not> isHealthy (m\<lparr>state := SHUTDOWN\<rparr>)"
  by (simp add: isHealthy_def)

section \<open>Default configuration\<close>

text \<open>
  C8. A default-constructed \<^verbatim>\<open>Config\<close> has sharedMemorySize 100MB (100 * 1024 * 1024
  bytes, with no wrap-around in 64 bits), messageQueueSize 10000, enableRedundancy false,
  enableMetrics true, logLevel "INFO" and watchdogTimeout 5000 ms.
\<close>

theorem Config_default_values:
  "unat (sharedMemorySize Config_default) = 100 * 1024 * 1024
   \<and> unat (messageQueueSize Config_default) = 10000
   \<and> enableRedundancy Config_default = False
   \<and> enableMetrics Config_default = True
   \<and> logLevel Config_default = ''INFO''
   \<and> watchdogTimeout Config_default = 5000"
  by (simp add: Config_default_def)

section \<open>Facts about rounding\<close>

lemma round_with_quantum_stop:
  "a < q * 2 ^ 53 \<Longrightarrow> round_with_quantum n q a = of_int (round_half_even (a / q)) * q"
  by (cases n) simp_all

lemma round_with_quantum_skip:
  "0 < q \<Longrightarrow> q * 2 ^ k * 2 ^ 52 \<le> a \<Longrightarrow> k \<le> n \<Longrightarrow>
     round_with_quantum n q a = round_with_quantum (n - k) (q * 2 ^ k) a"
proof (induction k arbitrary: n q)
  case 0
  then show ?case by simp
next
  case (Suc k)
  then obtain n' where n: "n = Suc n'" by (cases n) auto
  have "q * 2 ^ 53 * 1 \<le> q * 2 ^ 53 * 2 ^ k"
    using Suc.prems(1) by (intro mult_left_mono) simp_all
  also have "\<dots> = q * 2 ^ Suc k * 2 ^ 52" by simp
  finally have "\<not> a < q * 2 ^ 53" using Suc.prems(2) by simp
  then have "round_with_quantum n q a = round_with_quantum n' (2 * q) a"
    by (simp add: n)
  also have "\<dots> = round_with_quantum (n' - k) (2 * q * 2 ^ k) a"
    using Suc.prems by (intro Suc.IH) (simp_all add: n mult_ac)
  finally show ?case by (simp add: n mult_ac)
qed

lemma round_with_quantum_eval:
  assumes "0 < q" "k \<le> n" "k = 0 \<or> q * 2 ^ k * 2 ^ 52 \<le> a" "a < q * 2 ^ k * 2 ^ 53"
  shows "round_with_quantum n q a = of_int (round_half_even (a / (q * 2 ^ k))) * (q * 2 ^ k)"
proof -
  have "round_with_quantum n q a = round_with_quantum (n - k) (q * 2 ^ k) a"
    using assms(3)
  proof
    assume "k = 0" then show ?thesis by simp
  next
    assume "q * 2 ^ k * 2 ^ 52 \<le> a"
    then show ?thesis using assms(1,2) by (simp add: round_with_quantum_skip)
  qed
  then show ?thesis using assms(4) by (simp add: round_with_quantum_stop)
qed

text \<open>
  The value of \<open>round_to_double a\<close> for \<open>a \<ge> 0\<close>, given the number \<open>k\<close> of doublings: the
  spacing around \<open>a\<close> is \<open>2 ^ k / 2 ^ 1074\<close>.
\<close>

lemma round_to_double_eval:
  assumes "0 \<le> a" "k \<le> 2045" "k = 0 \<or> 2 ^ k * 2 ^ 52 / 2 ^ 1074 \<le> a"
    "a < 2 ^ k * 2 ^ 53 / 2 ^ 1074"
  shows "round_to_double a
           = of_int (round_half_even (a * 2 ^ 1074 / 2 ^ k)) * 2 ^ k / 2 ^ 1074"
  using assms round_with_quantum_eval [of "1 / 2 ^ 1074" k 2045 a]
  by (simp add: round_to_double_def)



text \<open>
  Values that the runs below meet, the arguments written as single fractions: the literal
  \<^verbatim>\<open>0.01\<close>, the largest change of a heater with \<^verbatim>\<open>maxRate\<close> 10 (the binary64 value
  nearest to 0.1), and sums and differences of 0.1, 0.2 and 100.
\<close>

lemma literal_001: "round_to_double (1 / 100) = 5764607523034235 / 576460752303423488"
  by (subst round_to_double_eval [of _ 1015]) (simp_all add: round_half_even_def)

lemma maxChange_10:
  "double_mult 10 (round_to_double (1 / 100)) = 3602879701896397 / 36028797018963968"
  unfolding double_mult_def literal_001
  by (subst round_to_double_eval [of _ 1018]) (simp_all add: round_half_even_def)

lemma round_to_double_100: "round_to_double 100 = 100"
  by (subst round_to_double_eval [of _ 1028]) (simp_all add: round_half_even_def)

lemma round_to_double_tenth:
  "round_to_double (3602879701896397 / 36028797018963968) = 3602879701896397 / 36028797018963968"
  by (subst round_to_double_eval [of _ 1018]) (simp_all add: round_half_even_def)

lemma round_to_double_twentieth:
  "round_to_double (1 / 20) = 3602879701896397 / 72057594037927936"
  by (subst round_to_double_eval [of _ 1017]) (simp_all add: round_half_even_def)

lemma round_to_double_100_minus_tenth:
  "round_to_double (3599276822194500403 / 36028797018963968) = 3514918771674317 / 35184372088832"
  by (subst round_to_double_eval [of _ 1028]) (simp_all add: round_half_even_def)

lemma round_to_double_two_tenths:
  "round_to_double (3602879701896397 / 18014398509481984) = 3602879701896397 / 18014398509481984"
  by (subst round_to_double_eval [of _ 1019]) (simp_all add: round_half_even_def)

lemma round_to_double_100_minus_two_tenths:
  "round_to_double (1797836971246302003 / 18014398509481984) = 7022800668930867 / 70368744177664"
  by (subst round_to_double_eval [of _ 1028]) (simp_all add: round_half_even_def)

lemma round_to_double_three_tenths:
  "round_to_double (10808639105689191 / 36028797018963968) = 1351079888211149 / 4503599627370496"
  by (subst round_to_double_eval [of _ 1020]) (simp_all add: round_half_even_def)

text \<open>
  With \<^verbatim>\<open>maxRate\<close> 0.7 the product with 0.01 rounds to 0.006999999999999999, one spacing
  below the binary64 value of 0.007.
\<close>

lemma maxChange_07:
  "double_mult (3152519739159347 / 4503599627370496) (round_to_double (1 / 100))
     = 1008806316530991 / 144115188075855872"
  unfolding double_mult_def literal_001
  by (subst round_to_double_eval [of _ 1014]) (simp_all add: round_half_even_def)

lemma round_to_double_007:
  "round_to_double (8070450532247929 / 1152921504606846976)
     = 8070450532247929 / 1152921504606846976"
  by (subst round_to_double_eval [of _ 1014]) (simp_all add: round_half_even_def)

lemma round_to_double_maxChange_07:
  "round_to_double (1008806316530991 / 144115188075855872)
     = 1008806316530991 / 144115188075855872"
  by (subst round_to_double_eval [of _ 1014]) (simp_all add: round_half_even_def)

section \<open>Facts about the heater\<close>


lemma cmd_value_ActuatorCommand: "cmd_value (ActuatorCommand t v) = v"
  by (simp add: ActuatorCommand_def)

lemma new_heater_fields:
  "limits HeaterActuator_new = \<lparr>minValue = 0, maxValue = 100, maxRate = 10\<rparr>"
  "emergencyStop HeaterActuator_new = False"
  "powerLevel HeaterActuator_new = 0"
  by (simp_all add: HeaterActuator_new_def setLimits_def)


lemma rateLimit_0_to_twentieth:
  "rateLimit \<lparr>minValue = 0, maxValue = 100, maxRate = 10\<rparr> 0 (5 / 100) = 5 / 100"
  by (simp add: rateLimit_def Let_def double_sub_def maxChange_10 round_to_double_twentieth)

lemma rateLimit_0_to_100:
  "rateLimit \<lparr>minValue = 0, maxValue = 100, maxRate = 10\<rparr> 0 100 = 3602879701896397 / 2 ^ 55"
  by (simp add: rateLimit_def Let_def double_sub_def double_add_def maxChange_10
      round_to_double_100 round_to_double_tenth)


lemma rateLimit_tenth_to_100:
  "rateLimit \<lparr>minValue = 0, maxValue = 100, maxRate = 10\<rparr> (3602879701896397 / 2 ^ 55) 100
     = 3602879701896397 / 2 ^ 54"
  by (simp add: rateLimit_def Let_def double_sub_def double_add_def maxChange_10
      round_to_double_100_minus_tenth round_to_double_two_tenths)

lemma rateLimit_two_tenths_to_100:
  "rateLimit \<lparr>minValue = 0, maxValue = 100, maxRate = 10\<rparr> (3602879701896397 / 2 ^ 54) 100
     = 5404319552844596 / 2 ^ 54"
  by (simp add: rateLimit_def Let_def double_sub_def double_add_def maxChange_10
      round_to_double_100_minus_two_tenths round_to_double_three_tenths)

text \<open>
  A target of 0.007 from level 0 under \<^verbatim>\<open>maxRate\<close> 0.7 is limited, to
  0.006999999999999999.
\<close>

lemma rateLimit_0_to_007:
  "rateLimit \<lparr>minValue = 0, maxValue = 100, maxRate = 3152519739159347 / 2 ^ 52\<rparr> 0
     (8070450532247929 / 2 ^ 60) = 8070450532247928 / 2 ^ 60"
  by (simp add: rateLimit_def Let_def double_sub_def double_add_def maxChange_07
      round_to_double_007 round_to_double_maxChange_07)

lemma heater_warm_eq:
  "heater_warm = HeaterActuator_new\<lparr>powerLevel := 5 / 100\<rparr>"
  using rateLimit_0_to_twentieth
  by (simp add: heater_warm_def HeaterActuator_execute_def HeaterActuator_new_def
      validateCommand_def ActuatorCommand_def setLimits_def isEmergencyStopped_def
      keepMetrics_def Let_def)

lemma execute_running:
  "validateCommand h cmd \<Longrightarrow> \<not> emergencyStop h \<Longrightarrow>
     powerLevel (object_after (HeaterActuator_execute upd h cmd))
       = rateLimit (limits h) (powerLevel h) (cmd_value cmd)"
  by (simp add: HeaterActuator_execute_def isEmergencyStopped_def Let_def)

lemma execute_running_fields:
  "validateCommand h cmd \<Longrightarrow> \<not> emergencyStop h \<Longrightarrow>
     limits (object_after (HeaterActuator_execute upd h cmd)) = limits h
     \<and> emergencyStop (object_after (HeaterActuator_execute upd h cmd)) = emergencyStop h"
  by (simp add: HeaterActuator_execute_def isEmergencyStopped_def Let_def)

text \<open>Three commands in a row on a new heater, the first and the third the same.\<close>

lemma three_commands:
  assumes r1: "rateLimit \<lparr>minValue = 0, maxValue = 100, maxRate = 10\<rparr> 0 a = p1"
    and r2: "rateLimit \<lparr>minValue = 0, maxValue = 100, maxRate = 10\<rparr> p1 b = p2"
    and r3: "rateLimit \<lparr>minValue = 0, maxValue = 100, maxRate = 10\<rparr> p2 c = p3"
    and a: "0 \<le> a" "a \<le> 100" and b: "0 \<le> b" "b \<le> 100" and c: "0 \<le> c" "c \<le> 100"
  shows "dispatched_values upd HeaterActuator_new
           [ActuatorCommand ''heater'' a, ActuatorCommand ''heater'' b,
            ActuatorCommand ''heater'' c] = [p1, p2, p3]"
proof -
  let ?ca = "ActuatorCommand ''heater'' a"
  let ?cb = "ActuatorCommand ''heater'' b"
  let ?cc = "ActuatorCommand ''heater'' c"
  let ?h1 = "object_after (HeaterActuator_execute upd HeaterActuator_new ?ca)"
  let ?h2 = "object_after (HeaterActuator_execute upd ?h1 ?cb)"
  let ?h3 = "object_after (HeaterActuator_execute upd ?h2 ?cc)"
  have v0: "validateCommand HeaterActuator_new ?ca"
    using a by (simp add: validateCommand_def new_heater_fields cmd_value_ActuatorCommand)
  have f1: "limits ?h1 = limits HeaterActuator_new" "emergencyStop ?h1 = False"
    using execute_running_fields [OF v0, of upd] by (simp_all add: new_heater_fields)
  have p1: "powerLevel ?h1 = p1"
    using execute_running [OF v0, of upd] r1
    by (simp add: new_heater_fields cmd_value_ActuatorCommand)
  have v1: "validateCommand ?h1 ?cb"
    using b by (simp add: validateCommand_def f1 new_heater_fields cmd_value_ActuatorCommand)
  have n1: "\<not> emergencyStop ?h1" by (simp add: f1)
  have f2: "limits ?h2 = limits HeaterActuator_new" "emergencyStop ?h2 = False"
    using execute_running_fields [OF v1 n1, of upd] by (simp_all add: f1)
  have p2: "powerLevel ?h2 = p2"
    using execute_running [OF v1 n1, of upd] r2
    by (simp add: f1 p1 new_heater_fields cmd_value_ActuatorCommand)
  have v2: "validateCommand ?h2 ?cc"
    using c by (simp add: validateCommand_def f2 new_heater_fields cmd_value_ActuatorCommand)
  have n2: "\<not> emergencyStop ?h2" by (simp add: f2)
  have p3: "powerLevel ?h3 = p3"
    using execute_running [OF v2 n2, of upd] r3
    by (simp add: f2 p2 new_heater_fields cmd_value_ActuatorCommand)
  show ?thesis
    by (simp add: Let_def p1 p2 p3)
qed


lemma dispatched_hundreds:
  "dispatched_values upd HeaterActuator_new
     [ActuatorCommand ''heater'' 100, ActuatorCommand ''heater'' 100,
      ActuatorCommand ''heater'' 100]
     = [3602879701896397 / 2 ^ 55, 3602879701896397 / 2 ^ 54, 5404319552844596 / 2 ^ 54]"
  by (rule three_commands [OF rateLimit_0_to_100 rateLimit_tenth_to_100
        rateLimit_two_tenths_to_100]) simp_all


section \<open>Emergency stop\<close>

text \<open>
  C1, as the code has it. For every command that passes validation and is executed on a
  heater whose emergency-stop flag is set, \<^verbatim>\<open>execute\<close> returns with the power level at 0,
  whatever value the command carries, and prints nothing.
\<close>

theorem execute_emergency_stop:
  "emergencyStop h \<Longrightarrow> validateCommand h cmd \<Longrightarrow>
     HeaterActuator_execute upd h cmd = Returned (h\<lparr>powerLevel := 0\<rparr>) []
     \<and> powerLevel (object_after (HeaterActuator_execute upd h cmd)) = 0"
  by (simp add: HeaterActuator_execute_def isEmergencyStopped_def)

theorem execute_emergency_stop_witness:
  "emergencyStop heater_warm_stopped
   \<and> validateCommand heater_warm_stopped (ActuatorCommand ''heater'' 75)
   \<and> powerLevel heater_warm_stopped = 5 / 100
   \<and> powerLevel (object_after (HeaterActuator_execute keepMetrics heater_warm_stopped
        (ActuatorCommand ''heater'' 75))) = 0"
proof -
  have e: "emergencyStop heater_warm_stopped"
    by (simp add: heater_warm_stopped_def setEmergencyStop_def)
  have v: "validateCommand heater_warm_stopped (ActuatorCommand ''heater'' 75)"
    by (simp add: heater_warm_stopped_def setEmergencyStop_def heater_warm_eq
        HeaterActuator_new_def setLimits_def validateCommand_def ActuatorCommand_def)
  have p: "powerLevel heater_warm_stopped = 5 / 100"
    by (simp add: heater_warm_stopped_def setEmergencyStop_def heater_warm_eq)
  from execute_emergency_stop [OF e v, of keepMetrics] e v p show ?thesis by simp
qed

text \<open>
  The statement of the spec fails for a command outside the limits: on the stopped heater at
  power level 0.05 the command 150 throws, and the power level stays at 0.05.
\<close>

theorem execute_emergency_stop_invalid_counterexample:
  "emergencyStop heater_warm_stopped
   \<and> HeaterActuator_execute keepMetrics heater_warm_stopped (ActuatorCommand ''heater'' 150)
       = Threw (runtime_error ''Invalid heater command'') heater_warm_stopped
   \<and> powerLevel (object_after (HeaterActuator_execute keepMetrics heater_warm_stopped
        (ActuatorCommand ''heater'' 150))) = 5 / 100
   \<and> powerLevel (object_after (HeaterActuator_execute keepMetrics heater_warm_stopped
        (ActuatorCommand ''heater'' 150))) \<noteq> 0"
  by (simp add: heater_warm_stopped_def setEmergencyStop_def heater_warm_eq
        HeaterActuator_new_def setLimits_def validateCommand_def ActuatorCommand_def
        HeaterActuator_execute_def)

section \<open>Rate limiting\<close>




section \<open>Safety check before execution\<close>

text \<open>
  C3, as the code has it. For every command, \<^verbatim>\<open>HeaterActuator::isSafeToExecute\<close> returns
  true exactly when the heater is not emergency-stopped and the command validates. A
  warning is printed exactly when the value is above the fixed threshold 90.0, which is
  90% of \<^verbatim>\<open>maxValue\<close> for the \<^verbatim>\<open>maxValue\<close> of 100 that the constructor sets. The warning
  does not block: a command above 90 that validates on a heater that is not stopped is
  reported safe, with the warning printed.
\<close>

theorem isSafeToExecute_result:
  "fst (HeaterActuator_isSafeToExecute h cmd) = (\<not> emergencyStop h \<and> validateCommand h cmd)
   \<and> snd (HeaterActuator_isSafeToExecute h cmd)
       = (if cmd_value cmd > 90 then [HighPowerWarning (cmd_value cmd)] else [])
   \<and> (maxValue (limits h) = 100 \<longrightarrow>
        (snd (HeaterActuator_isSafeToExecute h cmd) \<noteq> [])
          = (cmd_value cmd > 0.9 * maxValue (limits h)))
   \<and> (\<not> emergencyStop h \<and> validateCommand h cmd \<and> cmd_value cmd > 90 \<longrightarrow>
        HeaterActuator_isSafeToExecute h cmd = (True, [HighPowerWarning (cmd_value cmd)]))"
  by (simp add: HeaterActuator_isSafeToExecute_def isEmergencyStopped_def)

theorem isSafeToExecute_result_witness:
  "maxValue (limits HeaterActuator_new) = 100
   \<and> \<not> emergencyStop HeaterActuator_new
   \<and> validateCommand HeaterActuator_new (ActuatorCommand ''heater'' 95)
   \<and> cmd_value (ActuatorCommand ''heater'' 95) > 90
   \<and> HeaterActuator_isSafeToExecute HeaterActuator_new (ActuatorCommand ''heater'' 95)
       = (True, [HighPowerWarning 95])"
  using isSafeToExecute_result [of HeaterActuator_new "ActuatorCommand ''heater'' 95"]
  by (simp add: new_heater_fields validateCommand_def cmd_value_ActuatorCommand)

text \<open>
  The statement of the spec fails once the limits are reconfigured: with \<^verbatim>\<open>maxValue\<close> 50 the
  value 46 is above 90% of \<^verbatim>\<open>maxValue\<close>, and no warning is printed.
\<close>

theorem isSafeToExecute_warning_counterexample:
  "maxValue (getLimits heater_half_limits) = 50
   \<and> cmd_value (ActuatorCommand ''heater'' 46) > 0.9 * maxValue (getLimits heater_half_limits)
   \<and> HeaterActuator_isSafeToExecute heater_half_limits (ActuatorCommand ''heater'' 46)
       = (True, [])"
  by (simp add: heater_half_limits_def setLimits_def getLimits_def
      HeaterActuator_isSafeToExecute_def isEmergencyStopped_def validateCommand_def
      cmd_value_ActuatorCommand new_heater_fields)

section \<open>Lifecycle transitions\<close>

text \<open>
  C4, as the code has it. \<^verbatim>\<open>start()\<close> moves a module from Ready or Paused to Running,
  \<^verbatim>\<open>stop()\<close> moves it from Running to Paused, and \<^verbatim>\<open>shutdown()\<close> moves it from any state
  to Shutdown and is idempotent (these three as the spec gives them). \<^verbatim>\<open>initialize()\<close>
  moves a module from Uninitialized to Ready; in the mock sensor, the mock actuator and
  the heater it sets the state to Ready whatever the state was, and never throws.
\<close>

theorem lifecycle_transitions:
  "(state m = READY \<or> state m = PAUSED \<longrightarrow> Module_start m = Some (m\<lparr>state := RUNNING\<rparr>))
   \<and> (state m = RUNNING \<longrightarrow> Module_stop m = Some (m\<lparr>state := PAUSED\<rparr>))
   \<and> state (Module_shutdown m) = SHUTDOWN
   \<and> Module_shutdown (Module_shutdown m) = Module_shutdown m
   \<and> (state s = UNINITIALIZED \<longrightarrow> state (object_after (MockSensor_initialize s)) = READY)
   \<and> MockSensor_initialize s = Returned (s\<lparr>initialized := True, state := READY\<rparr>) []
   \<and> MockActuator_initialize a = Returned (a\<lparr>state := READY\<rparr>) []
   \<and> HeaterActuator_initialize h = Returned (h\<lparr>state := READY\<rparr>) [InitializingLine (name h)]"
  by (simp add: Module_start_def Module_stop_def Module_shutdown_def setState_def
      MockSensor_initialize_def MockActuator_initialize_def HeaterActuator_initialize_def)

text \<open>The run of the lifecycle test: initialize, start, stop, shutdown.\<close>

theorem lifecycle_transitions_witness:
  "state MockSensor_new = UNINITIALIZED
   \<and> state (object_after (MockSensor_initialize MockSensor_new)) = READY
   \<and> Module_start (object_after (MockSensor_initialize MockSensor_new))
       = Some (MockSensor_new\<lparr>initialized := True, state := RUNNING\<rparr>)
   \<and> state (MockSensor_new\<lparr>initialized := True, state := RUNNING\<rparr>) = RUNNING
   \<and> Module_stop (MockSensor_new\<lparr>initialized := True, state := RUNNING\<rparr>)
       = Some (MockSensor_new\<lparr>initialized := True, state := PAUSED\<rparr>)
   \<and> state (Module_shutdown (MockSensor_new\<lparr>initialized := True, state := PAUSED\<rparr>))
       = SHUTDOWN"
proof -
  let ?r = "MockSensor_new\<lparr>initialized := True, state := RUNNING\<rparr>"
  have u: "state MockSensor_new = UNINITIALIZED"
    by (simp add: MockSensor_new_def)
  have i: "object_after (MockSensor_initialize MockSensor_new)
             = MockSensor_new\<lparr>initialized := True, state := READY\<rparr>"
    by (simp add: MockSensor_initialize_def setState_def)
  from lifecycle_transitions [of "object_after (MockSensor_initialize MockSensor_new)" MockSensor_new]
    lifecycle_transitions [of ?r]
    lifecycle_transitions [of "MockSensor_new\<lparr>initialized := True, state := PAUSED\<rparr>"]
    u i
  show ?thesis by simp
qed

text \<open>
  The statement of the spec fails for a second \<^verbatim>\<open>initialize()\<close>: on a mock sensor that is
  already Ready the call returns, leaving it Ready, and throws nothing.
\<close>

theorem initialize_twice_counterexample:
  "state (object_after (MockSensor_initialize MockSensor_new)) = READY
   \<and> MockSensor_initialize (object_after (MockSensor_initialize MockSensor_new))
       = Returned (object_after (MockSensor_initialize MockSensor_new)) []
   \<and> \<not> has_thrown (MockSensor_initialize (object_after (MockSensor_initialize MockSensor_new)))"
  by (simp add: MockSensor_initialize_def setState_def)

section \<open>Command validation\<close>

lemma new_mock_limits:
  "limits MockActuator_new = \<lparr>minValue = 0, maxValue = 100, maxRate = 50\<rparr>"
  by (simp add: MockActuator_new_def setLimits_def)

text \<open>
  C6. For every command whose value is outside \<^verbatim>\<open>[minValue, maxValue]\<close>, validation
  fails and \<^verbatim>\<open>execute\<close>, of the heater and of the mock actuator, throws and leaves the
  actuator as it was. For every command whose value is inside the range, validation
  succeeds and \<^verbatim>\<open>execute\<close> does not throw.
\<close>

theorem out_of_range_rejected:
  "(cmd_value cmd < minValue (limits h) \<or> cmd_value cmd > maxValue (limits h) \<longrightarrow>
      \<not> validateCommand h cmd
      \<and> HeaterActuator_execute upd h cmd = Threw (runtime_error ''Invalid heater command'') h)
   \<and> (cmd_value cmd < minValue (limits a) \<or> cmd_value cmd > maxValue (limits a) \<longrightarrow>
      \<not> validateCommand a cmd
      \<and> MockActuator_execute a cmd = Threw (runtime_error ''Invalid command'') a)
   \<and> (minValue (limits h) \<le> cmd_value cmd \<and> cmd_value cmd \<le> maxValue (limits h) \<longrightarrow>
      validateCommand h cmd \<and> \<not> has_thrown (HeaterActuator_execute upd h cmd))
   \<and> (minValue (limits a) \<le> cmd_value cmd \<and> cmd_value cmd \<le> maxValue (limits a) \<longrightarrow>
      validateCommand a cmd \<and> \<not> has_thrown (MockActuator_execute a cmd))"
  by (auto simp add: validateCommand_def HeaterActuator_execute_def MockActuator_execute_def
      Let_def)

text \<open>The commands of the actuator test: 150 is rejected, 50 is accepted.\<close>

theorem out_of_range_rejected_witness:
  "cmd_value (ActuatorCommand ''test'' 150) > maxValue (limits MockActuator_new)
   \<and> cmd_value (ActuatorCommand ''test'' 150) > maxValue (limits HeaterActuator_new)
   \<and> MockActuator_execute MockActuator_new (ActuatorCommand ''test'' 150)
       = Threw (runtime_error ''Invalid command'') MockActuator_new
   \<and> HeaterActuator_execute keepMetrics HeaterActuator_new (ActuatorCommand ''test'' 150)
       = Threw (runtime_error ''Invalid heater command'') HeaterActuator_new
   \<and> minValue (limits MockActuator_new) \<le> cmd_value (ActuatorCommand ''test'' 50)
   \<and> cmd_value (ActuatorCommand ''test'' 50) \<le> maxValue (limits MockActuator_new)
   \<and> minValue (limits HeaterActuator_new) \<le> cmd_value (ActuatorCommand ''test'' 50)
   \<and> cmd_value (ActuatorCommand ''test'' 50) \<le> maxValue (limits HeaterActuator_new)
   \<and> validateCommand MockActuator_new (ActuatorCommand ''test'' 50)
   \<and> \<not> has_thrown (MockActuator_execute MockActuator_new (ActuatorCommand ''test'' 50))
   \<and> \<not> has_thrown (HeaterActuator_execute keepMetrics HeaterActuator_new
          (ActuatorCommand ''test'' 50))"
  using out_of_range_rejected [of "ActuatorCommand ''test'' 150" HeaterActuator_new
      keepMetrics MockActuator_new]
    out_of_range_rejected [of "ActuatorCommand ''test'' 50" HeaterActuator_new
      keepMetrics MockActuator_new]
  by (simp add: new_mock_limits new_heater_fields cmd_value_ActuatorCommand)

text \<open>
  C10. \<^verbatim>\<open>execute\<close> validates before it looks at the emergency-stop flag: for every command
  whose value is outside \<^verbatim>\<open>[minValue, maxValue]\<close>, \<^verbatim>\<open>execute\<close> on the emergency-stopped
  actuator throws and leaves the actuator as it was, the power level (for the mock, the
  last command) unchanged and not driven to zero; it throws in the same way when the flag
  is not set.
\<close>

theorem invalid_command_before_emergency_stop:
  "(cmd_value cmd < minValue (limits h) \<or> cmd_value cmd > maxValue (limits h) \<longrightarrow>
      HeaterActuator_execute upd (setEmergencyStop h True) cmd
        = Threw (runtime_error ''Invalid heater command'') (setEmergencyStop h True)
      \<and> powerLevel (object_after (HeaterActuator_execute upd (setEmergencyStop h True) cmd))
          = powerLevel h
      \<and> HeaterActuator_execute upd h cmd = Threw (runtime_error ''Invalid heater command'') h)
   \<and> (cmd_value cmd < minValue (limits a) \<or> cmd_value cmd > maxValue (limits a) \<longrightarrow>
      MockActuator_execute (setEmergencyStop a True) cmd
        = Threw (runtime_error ''Invalid command'') (setEmergencyStop a True)
      \<and> lastCommand (object_after (MockActuator_execute (setEmergencyStop a True) cmd))
          = lastCommand a)"
  by (simp add: validateCommand_def HeaterActuator_execute_def MockActuator_execute_def
      setEmergencyStop_def)

theorem invalid_command_before_emergency_stop_witness:
  "cmd_value (ActuatorCommand ''heater'' (- 5)) < minValue (limits heater_warm)
   \<and> cmd_value (ActuatorCommand ''heater'' (- 5)) < minValue (limits MockActuator_new)
   \<and> emergencyStop (setEmergencyStop heater_warm True)
   \<and> HeaterActuator_execute keepMetrics (setEmergencyStop heater_warm True)
        (ActuatorCommand ''heater'' (- 5))
       = Threw (runtime_error ''Invalid heater command'') (setEmergencyStop heater_warm True)
   \<and> powerLevel (object_after (HeaterActuator_execute keepMetrics
        (setEmergencyStop heater_warm True) (ActuatorCommand ''heater'' (- 5)))) = 5 / 100"
  using invalid_command_before_emergency_stop [of "ActuatorCommand ''heater'' (- 5)"
      heater_warm keepMetrics MockActuator_new]
  by (simp add: heater_warm_eq new_heater_fields new_mock_limits cmd_value_ActuatorCommand
      setEmergencyStop_def)

section \<open>Typed module lookup\<close>

text \<open>
  C7. For every name and requested class, \<^verbatim>\<open>getModule\<close> returns the null pointer if no
  module of that name is registered, and also if the registered module is not of the
  requested class; it returns a non-null pointer, the registered one, only when the name
  is registered and the module is of the requested class.
\<close>

theorem getModule_checked:
  "(modules n = None \<longrightarrow> getModule derives modules t n = nullptr)
   \<and> (modules n = Some info \<and> module info = ptr a c \<and> \<not> derives c t \<longrightarrow>
        getModule derives modules t n = nullptr)
   \<and> (getModule derives modules t n = ptr a c)
       = (\<exists>info. modules n = Some info \<and> module info = ptr a c \<and> derives c t)"
  by (auto simp add: getModule_def dynamic_pointer_cast_def
      split: option.splits shared_ptr.splits)

theorem getModule_checked_witness:
  "example_modules ''valve'' = None
   \<and> getModule dcs_derives example_modules ActuatorModule_class ''valve'' = nullptr
   \<and> example_modules ''heater''
       = Some \<lparr>module = ptr 1 HeaterActuator_class, libraryHandle = 0,
           libraryPath = ''./libheater_actuator.so''\<rparr>
   \<and> \<not> dcs_derives HeaterActuator_class SensorModule_class
   \<and> getModule dcs_derives example_modules SensorModule_class ''heater'' = nullptr
   \<and> dcs_derives HeaterActuator_class ActuatorModule_class
   \<and> getModule dcs_derives example_modules ActuatorModule_class ''heater''
       = ptr 1 HeaterActuator_class"
proof -
  let ?info = "\<lparr>module = ptr 1 HeaterActuator_class, libraryHandle = 0,
           libraryPath = ''./libheater_actuator.so''\<rparr>"
  have v: "example_modules ''valve'' = None"
    by (simp add: example_modules_def)
  have h: "example_modules ''heater'' = Some ?info"
    by (simp add: example_modules_def)
  have d: "\<not> dcs_derives HeaterActuator_class SensorModule_class"
    "dcs_derives HeaterActuator_class ActuatorModule_class"
    by (simp_all add: dcs_derives_def)
  from getModule_checked [of example_modules "''valve''" dcs_derives ActuatorModule_class]
    getModule_checked [of example_modules "''heater''" dcs_derives SensorModule_class
      ?info 1 HeaterActuator_class]
    getModule_checked [of example_modules "''heater''" dcs_derives ActuatorModule_class
      ?info 1 HeaterActuator_class]
    v h d
  show ?thesis by simp
qed

section \<open>Default limits\<close>




end
